theory Spec2Isabelle
  imports Main "HOL-Library.AList"
begin

section \<open>JavaScript values\<close>

text \<open>
  The server keeps two JSON files, \<^verbatim>\<open>items.json\<close> and \<^verbatim>\<open>transactions.json\<close>, and every
  route handler of \<^verbatim>\<open>src/unnamed/part_000\<close> reads a file, changes the parsed array and writes
  it back. The handlers do not check the type of anything they receive, so what they do is
  decided by JavaScript's coercions. The values are therefore modelled as JavaScript has
  them, within these bounds:
  \<^item> a number is an integer (\<open>JNum n\<close>); the model computes with it exactly, as
    JavaScript does for integers up to \<open>2^53 - 1\<close> in absolute value (\<open>safe_integer\<close>).
    Fractions, infinities and the rounding of larger integers are outside the model;
  \<^item> a string is a list of UTF-16 code units below 256, one \<open>char\<close> each;
  \<^item> an object is an association list read with \<open>map_of\<close>; the order of its keys is not
    observed by any handler;
  \<^item> \<open>JUndefined\<close> is what reading an absent property gives. JSON cannot hold it:
    \<^verbatim>\<open>JSON.stringify\<close> leaves a property with this value out.
\<close>

datatype jsval =
    JUndefined
  | JNull
  | JBool bool
  | JNum int
  | JStr string
  | JArr "jsval list"
  | JObj "(string \<times> jsval) list"

type_synonym obj = "(string \<times> jsval) list"

text \<open>The result of a numeric conversion: \<open>NaN\<close> or an integer.\<close>

datatype jsnum = NaN | Num int


text \<open>Property access \<^verbatim>\<open>o.k\<close>.\<close>

definition field :: "obj \<Rightarrow> string \<Rightarrow> jsval" where
  "field ob k = (case map_of ob k of None \<Rightarrow> JUndefined | Some v \<Rightarrow> v)"

text \<open>Assignment \<^verbatim>\<open>o.k = v\<close>.\<close>

definition set_field :: "obj \<Rightarrow> string \<Rightarrow> jsval \<Rightarrow> obj" where
  "set_field ob k v = AList.update k v ob"

text \<open>Object spread \<^verbatim>\<open>{ ...a, ...b }\<close>: the properties of \<open>b\<close> over those of \<open>a\<close>.\<close>

definition spread :: "obj \<Rightarrow> obj \<Rightarrow> obj" where
  "spread a b = AList.merge a b"

text \<open>
  What \<^verbatim>\<open>JSON.stringify\<close> keeps of an object literal whose properties were read from a
  request body: a property whose value is \<^verbatim>\<open>undefined\<close> is dropped.
\<close>

definition stringify_obj :: "obj \<Rightarrow> obj" where
  "stringify_obj ob = filter (\<lambda>(k, v). v \<noteq> JUndefined) ob"

text \<open>\<^verbatim>\<open>JSON.stringify\<close> of a number: \<^verbatim>\<open>NaN\<close> is written as \<^verbatim>\<open>null\<close>.\<close>

definition num_to_json :: "jsnum \<Rightarrow> jsval" where
  "num_to_json x = (case x of NaN \<Rightarrow> JNull | Num n \<Rightarrow> JNum n)"

text \<open>Truthiness, as \<^verbatim>\<open>!v\<close> and \<^verbatim>\<open>v || w\<close> read it.\<close>

fun truthy :: "jsval \<Rightarrow> bool" where
  "truthy JUndefined = False"
| "truthy JNull = False"
| "truthy (JBool b) = b"
| "truthy (JNum n) = (n \<noteq> 0)"
| "truthy (JStr s) = (s \<noteq> [])"
| "truthy (JArr xs) = True"
| "truthy (JObj ob) = True"

text \<open>
  Strict equality \<^verbatim>\<open>a === b\<close> between a value parsed from a file and a value parsed from
  the request: primitives are compared by type and value, and two arrays or objects
  from different parses are never the same object.
\<close>

fun strict_eq :: "jsval \<Rightarrow> jsval \<Rightarrow> bool" where
  "strict_eq JUndefined JUndefined = True"
| "strict_eq JNull JNull = True"
| "strict_eq (JBool a) (JBool b) = (a = b)"
| "strict_eq (JNum a) (JNum b) = (a = b)"
| "strict_eq (JStr a) (JStr b) = (a = b)"
| "strict_eq a b = False"

subsection \<open>Numbers and strings\<close>

definition digit_chars :: string where
  "digit_chars = ''0123456789''"

fun digits_of :: "nat \<Rightarrow> string" where
  "digits_of n =
     (if n < 10 then [digit_chars ! n] else digits_of (n div 10) @ [digit_chars ! (n mod 10)])"

declare digits_of.simps [simp del]

text \<open>
  \<^verbatim>\<open>Number.prototype.toString\<close> on an integer: the decimal digits below \<open>10^21\<close>, and
  from there on the exponent form \<^verbatim>\<open>d.ddde+N\<close> (here with the exact digits of the integer).
\<close>

definition strip_zeros :: "string \<Rightarrow> string" where
  "strip_zeros ds = rev (dropWhile (\<lambda>c. c = CHR ''0'') (rev ds))"

definition exponent_form :: "nat \<Rightarrow> string" where
  "exponent_form n =
     (let ds = digits_of n;
          frac = strip_zeros (tl ds)
      in hd ds # (if frac = [] then [] else CHR ''.'' # frac)
           @ ''e+'' @ digits_of (length ds - 1))"

definition number_to_string :: "int \<Rightarrow> string" where
  "number_to_string n =
     (let m = nat \<bar>n\<bar>;
          s = (if m < 1000000000000000000000 then digits_of m else exponent_form m)
      in if n < 0 then CHR ''-'' # s else s)"

fun join :: "string \<Rightarrow> string list \<Rightarrow> string" where
  "join sep [] = []"
| "join sep [s] = s"
| "join sep (s # t # ss) = s @ sep @ join sep (t # ss)"

text \<open>
  \<^verbatim>\<open>String(v)\<close>, which \<^verbatim>\<open>parseInt\<close> and template literals apply. An array is the
  comma-joined strings of its elements, \<^verbatim>\<open>null\<close> and \<^verbatim>\<open>undefined\<close> elements being empty.
\<close>

fun to_string :: "jsval \<Rightarrow> string" where
  "to_string JUndefined = ''undefined''"
| "to_string JNull = ''null''"
| "to_string (JBool b) = (if b then ''true'' else ''false'')"
| "to_string (JNum n) = number_to_string n"
| "to_string (JStr s) = s"
| "to_string (JArr xs) =
     join '','' (map (\<lambda>x. if x = JNull \<or> x = JUndefined then [] else to_string x) xs)"
| "to_string (JObj ob) = ''[object Object]''"

text \<open>White space as \<^verbatim>\<open>parseInt\<close> and \<^verbatim>\<open>Number\<close> skip it (the code units below 256).\<close>

definition is_ws :: "char \<Rightarrow> bool" where
  "is_ws c = (c \<in> set [CHR 0x09, CHR 0x0A, CHR 0x0B, CHR 0x0C, CHR 0x0D, CHR 0x20, CHR 0xA0])"

fun index_of :: "'a \<Rightarrow> 'a list \<Rightarrow> nat option" where
  "index_of c [] = None"
| "index_of c (d # ds) = (if c = d then Some 0 else map_option Suc (index_of c ds))"

text \<open>The value of a digit in a radix up to 16; \<open>None\<close> when the character is no such digit.\<close>

definition digit_val :: "nat \<Rightarrow> char \<Rightarrow> nat option" where
  "digit_val radix c =
     (case index_of c ''0123456789abcdef'' of
        Some d \<Rightarrow> if d < radix then Some d else None
      | None \<Rightarrow>
          (case index_of c ''ABCDEF'' of
             Some d \<Rightarrow> if d + 10 < radix then Some (d + 10) else None
           | None \<Rightarrow> None))"

text \<open>The longest prefix of digits, as numbers.\<close>

fun take_digits :: "nat \<Rightarrow> string \<Rightarrow> nat list" where
  "take_digits radix [] = []"
| "take_digits radix (c # cs) =
     (case digit_val radix c of None \<Rightarrow> [] | Some d \<Rightarrow> d # take_digits radix cs)"

definition digits_value :: "nat \<Rightarrow> nat list \<Rightarrow> nat" where
  "digits_value radix ds = foldl (\<lambda>acc d. acc * radix + d) 0 ds"

text \<open>
  \<^verbatim>\<open>parseInt(string, radix)\<close> of ECMAScript, for the two ways the source calls it:
  \<open>Some 10\<close> is \<^verbatim>\<open>parseInt(s, 10)\<close>, and \<open>None\<close> is \<^verbatim>\<open>parseInt(s)\<close>, which reads a
  \<^verbatim>\<open>0x\<close> prefix as hexadecimal. Leading white space is skipped, one sign is read, and the
  digits stop at the first character that is none; no digit at all gives \<^verbatim>\<open>NaN\<close>.
\<close>

definition parseInt :: "string \<Rightarrow> nat option \<Rightarrow> jsnum" where
  "parseInt inputString radix =
     (let S = dropWhile is_ws inputString;
          neg = (S \<noteq> [] \<and> hd S = CHR ''-'');
          S = (if S \<noteq> [] \<and> (hd S = CHR ''+'' \<or> hd S = CHR ''-'') then tl S else S);
          stripPrefix = (radix = None \<or> radix = Some 16);
          hex = (stripPrefix \<and> (take 2 S = ''0x'' \<or> take 2 S = ''0X''));
          S = (if hex then drop 2 S else S);
          R = (if hex then 16 else case radix of None \<Rightarrow> 10 | Some r \<Rightarrow> r);
          Z = take_digits R S
      in if Z = [] then NaN
         else Num ((if neg then - 1 else 1) * int (digits_value R Z)))"

text \<open>
  \<^verbatim>\<open>Number(s)\<close> on a string, for the strings it reads as an integer: white space around an
  optionally signed run of decimal digits, and the empty string, which is 0. On every
  other string (a fraction, an exponent, a radix prefix, \<^verbatim>\<open>Infinity\<close>, or text that is
  \<^verbatim>\<open>NaN\<close>) the result is \<open>None\<close>: the model does not determine it.
\<close>

definition string_to_number :: "string \<Rightarrow> jsnum option" where
  "string_to_number s =
     (let t = rev (dropWhile is_ws (rev (dropWhile is_ws s)));
          neg = (t \<noteq> [] \<and> hd t = CHR ''-'');
          u = (if t \<noteq> [] \<and> (hd t = CHR ''+'' \<or> hd t = CHR ''-'') then tl t else t)
      in if t = [] then Some (Num 0)
         else if u \<noteq> [] \<and> length (take_digits 10 u) = length u
         then Some (Num ((if neg then - 1 else 1) * int (digits_value 10 (take_digits 10 u))))
         else None)"

text \<open>
  \<^verbatim>\<open>Number(v)\<close>, which \<^verbatim>\<open><\<close> and \<^verbatim>\<open>-=\<close> apply to a stored amount. An array or an object
  is first turned into its string.
\<close>

fun to_number :: "jsval \<Rightarrow> jsnum option" where
  "to_number JUndefined = Some NaN"
| "to_number JNull = Some (Num 0)"
| "to_number (JBool b) = Some (Num (if b then 1 else 0))"
| "to_number (JNum n) = Some (Num n)"
| "to_number (JStr s) = string_to_number s"
| "to_number (JArr xs) = string_to_number (to_string (JArr xs))"
| "to_number (JObj ob) = Some NaN"

text \<open>\<^verbatim>\<open>a < b\<close> and \<^verbatim>\<open>a - b\<close> on numbers: a comparison with \<^verbatim>\<open>NaN\<close> is false.\<close>

fun js_lt :: "jsnum \<Rightarrow> jsnum \<Rightarrow> bool" where
  "js_lt (Num a) (Num b) = (a < b)"
| "js_lt a b = False"

fun js_sub :: "jsnum \<Rightarrow> jsnum \<Rightarrow> jsnum" where
  "js_sub (Num a) (Num b) = Num (a - b)"
| "js_sub a b = NaN"


section \<open>The two files and the requests\<close>

text \<open>
  The state is the parsed content of the two files. Both start as \<^verbatim>\<open>[]\<close>
  (\<^verbatim>\<open>initializeFiles\<close>) and are only ever written by the handlers, which store objects.
  A request body is the object that \<^verbatim>\<open>bodyParser.json()\<close> has parsed, \<^verbatim>\<open>{}\<close> when the
  request carries none. What a handler reads from a file or from a request is parsed
  JSON, and writing it with \<^verbatim>\<open>JSON.stringify\<close> and parsing it again gives the same value;
  so the effect of \<^verbatim>\<open>JSON.stringify\<close> is modelled where a handler has built a value that
  JSON cannot hold: a property that is \<^verbatim>\<open>undefined\<close> (\<open>stringify_obj\<close>) and the number
  \<^verbatim>\<open>NaN\<close> (\<open>num_to_json\<close>).
\<close>

record fs =
  items_file :: "obj list"
  transactions_file :: "obj list"

definition initializeFiles :: fs where
  "initializeFiles = \<lparr>items_file = [], transactions_file = []\<rparr>"

text \<open>
  Each handler runs in a \<^verbatim>\<open>try\<close> block whose \<^verbatim>\<open>catch\<close> answers 500. What can throw there
  is the file system: a read (\<^verbatim>\<open>fs.readFile\<close> with \<^verbatim>\<open>JSON.parse\<close>) or a write
  (\<^verbatim>\<open>fs.writeFile\<close>). The environment of a request says which of these fail, and with
  which \<^verbatim>\<open>error.message\<close>; a write that fails leaves the file as it was.
\<close>

datatype io_op = ReadItems | WriteItems | ReadTransactions | WriteTransactions

type_synonym faults = "io_op \<Rightarrow> string option"

definition no_faults :: faults where
  "no_faults op = None"

datatype response = Response (status: nat) (body: jsval)

text \<open>\<^verbatim>\<open>res.status(code).json({ error: msg })\<close>\<close>

definition error_response :: "nat \<Rightarrow> string \<Rightarrow> response" where
  "error_response code msg = Response code (JObj [(''error'', JStr msg)])"

text \<open>\<^verbatim>\<open>Array.prototype.findIndex\<close>, with \<open>None\<close> for \<^verbatim>\<open>-1\<close>.\<close>

fun findIndex :: "('a \<Rightarrow> bool) \<Rightarrow> 'a list \<Rightarrow> nat option" where
  "findIndex P [] = None"
| "findIndex P (x # xs) = (if P x then Some 0 else map_option Suc (findIndex P xs))"

section \<open>Item routes\<close>

text \<open>\<^verbatim>\<open>GET /items\<close>\<close>

definition get_items :: "faults \<Rightarrow> fs \<Rightarrow> response \<times> fs" where
  "get_items io s =
     (if io ReadItems \<noteq> None then (error_response 500 ''Error reading items'', s)
      else (Response 200 (JArr (map JObj (items_file s))), s))"

text \<open>
  \<^verbatim>\<open>POST /items\<close>; \<open>now\<close> is the value of \<^verbatim>\<open>Date.now()\<close>, the clock in milliseconds.
  The new record is written, and sent back, as \<^verbatim>\<open>JSON.stringify\<close> renders it.
\<close>

definition post_items :: "faults \<Rightarrow> int \<Rightarrow> obj \<Rightarrow> fs \<Rightarrow> response \<times> fs" where
  "post_items io now req_body s =
     (if io ReadItems \<noteq> None then (error_response 500 ''Error creating item'', s)
      else
        let items = items_file s;
            newItem = [(''id'', JNum now),
                       (''name'', field req_body ''name''),
                       (''amount'', field req_body ''amount'')];
            items = items @ [stringify_obj newItem]
        in
        if io WriteItems \<noteq> None then (error_response 500 ''Error creating item'', s)
        else (Response 201 (JObj (stringify_obj newItem)), s\<lparr>items_file := items\<rparr>))"

text \<open>\<^verbatim>\<open>PUT /items/:name\<close>; the route parameter is a string.\<close>

definition put_items :: "faults \<Rightarrow> string \<Rightarrow> obj \<Rightarrow> fs \<Rightarrow> response \<times> fs" where
  "put_items io name req_body s =
     (if io ReadItems \<noteq> None then (error_response 500 ''Error updating item'', s)
      else
        let items = items_file s in
        (case findIndex (\<lambda>item. strict_eq (field item ''name'') (JStr name)) items of
           None \<Rightarrow> (error_response 404 ''Item not found'', s)
         | Some index \<Rightarrow>
             (let items = items[index := spread (items ! index) req_body] in
              if io WriteItems \<noteq> None then (error_response 500 ''Error updating item'', s)
              else (Response 200 (JObj (items ! index)), s\<lparr>items_file := items\<rparr>))))"

text \<open>\<^verbatim>\<open>DELETE /items/:name\<close>; \<^verbatim>\<open>res.status(204).send()\<close> has no body.\<close>

definition delete_items :: "faults \<Rightarrow> string \<Rightarrow> fs \<Rightarrow> response \<times> fs" where
  "delete_items io name s =
     (if io ReadItems \<noteq> None then (error_response 500 ''Error deleting item'', s)
      else
        let items = items_file s;
            items = filter (\<lambda>item. \<not> strict_eq (field item ''name'') (JStr name)) items
        in
        if io WriteItems \<noteq> None then (error_response 500 ''Error deleting item'', s)
        else (Response 204 JUndefined, s\<lparr>items_file := items\<rparr>))"

section \<open>Taking an item\<close>

text \<open>
  \<^verbatim>\<open>POST /take-item\<close>, in parts, in the order in which the handler runs them. The first
  is everything from the lookup of the item to the stock check: it answers a rejected
  request, or gives the index of the item, the requested amount and the amount that
  remains. \<open>None\<close> stands for a stored amount that is a string \<open>string_to_number\<close> does
  not determine.
\<close>

definition transaction_error :: "string \<Rightarrow> response" where
  "transaction_error msg = error_response 500 (''Error processing transaction '' @ msg)"

datatype checked = Rejected response | Accepted nat int jsnum

definition take_item_checks :: "obj \<Rightarrow> obj list \<Rightarrow> checked option" where
  "take_item_checks req_body items =
     (let itemName = field req_body ''itemName'';
          amount = field req_body ''amount''
      in
      case findIndex (\<lambda>item. strict_eq (field item ''name'') itemName) items of
        None \<Rightarrow> Some (Rejected (error_response 404 ''Item not found''))
      | Some itemIndex \<Rightarrow>
          (case parseInt (to_string amount) (Some 10) of
             NaN \<Rightarrow> Some (Rejected (error_response 400 ''Invalid amount''))
           | Num requestedAmount \<Rightarrow>
               if requestedAmount \<le> 0
               then Some (Rejected (error_response 400 ''Invalid amount''))
               else
                 (case to_number (field (items ! itemIndex) ''amount'') of
                    None \<Rightarrow> None
                  | Some stock \<Rightarrow>
                      if js_lt stock (Num requestedAmount)
                      then Some (Rejected (error_response 400 ''Insufficient amount''))
                      else Some (Accepted itemIndex requestedAmount
                                   (js_sub stock (Num requestedAmount))))))"

text \<open>The record pushed on the ledger.\<close>

definition transaction_record :: "obj \<Rightarrow> int \<Rightarrow> obj" where
  "transaction_record req_body requestedAmount =
     (let personName = field req_body ''personName'';
          date = field req_body ''date''
      in [(''personName'', if \<not> truthy personName then JStr ''System'' else personName),
          (''itemName'', field req_body ''itemName''),
          (''amount'', JNum requestedAmount),
          (''date'', if truthy date then date else JStr [])])"

text \<open>The answer after both writes.\<close>

definition take_item_success :: "obj \<Rightarrow> int \<Rightarrow> jsval \<Rightarrow> jsnum \<Rightarrow> response" where
  "take_item_success req_body requestedAmount name remaining =
     (let personName = field req_body ''personName'';
          personName = (if \<not> truthy personName then JStr ''System'' else personName);
          took = to_string personName @ '' took '' @ number_to_string requestedAmount @
                 '' '' @ to_string name @ ''(s)''
      in
      if remaining = Num 0
      then Response 200 (JObj
             [(''message'', JStr (took @ ''. '' @ to_string name @ '' is now out of stock!'')),
              (''remaining'', num_to_json remaining)])
      else Response 200 (JObj
             [(''message'', JStr took), (''remaining'', num_to_json remaining)]))"

text \<open>
  The two writes: the items file with the amount deducted, then the ledger with the new
  record appended. An exception at any of the four file operations is answered with 500
  from the one \<^verbatim>\<open>catch\<close>, with the files as they are at that moment.
\<close>

definition take_item_writes ::
  "faults \<Rightarrow> obj \<Rightarrow> fs \<Rightarrow> nat \<Rightarrow> int \<Rightarrow> jsnum \<Rightarrow> response \<times> fs" where
  "take_item_writes io req_body s itemIndex requestedAmount remaining =
     (let items = items_file s;
          item = set_field (items ! itemIndex) ''amount'' (num_to_json remaining);
          items = items[itemIndex := item]
      in
      case io WriteItems of
        Some e \<Rightarrow> (transaction_error e, s)
      | None \<Rightarrow>
          (let s = s\<lparr>items_file := items\<rparr> in
           case io ReadTransactions of
             Some e \<Rightarrow> (transaction_error e, s)
           | None \<Rightarrow>
               (let transactions = transactions_file s @
                                     [transaction_record req_body requestedAmount]
                in
                case io WriteTransactions of
                  Some e \<Rightarrow> (transaction_error e, s)
                | None \<Rightarrow>
                    (take_item_success req_body requestedAmount (field item ''name'')
                       remaining,
                     s\<lparr>transactions_file := transactions\<rparr>))))"

definition post_take_item :: "faults \<Rightarrow> obj \<Rightarrow> fs \<Rightarrow> (response \<times> fs) option" where
  "post_take_item io req_body s =
     (if \<not> truthy (field req_body ''itemName'') \<or> \<not> truthy (field req_body ''amount'')
      then Some (error_response 400 ''Missing required fields'', s)
      else
        case io ReadItems of
          Some e \<Rightarrow> Some (transaction_error e, s)
        | None \<Rightarrow>
            (case take_item_checks req_body (items_file s) of
               None \<Rightarrow> None
             | Some (Rejected r) \<Rightarrow> Some (r, s)
             | Some (Accepted itemIndex requestedAmount remaining) \<Rightarrow>
                 Some (take_item_writes io req_body s itemIndex requestedAmount remaining)))"










section \<open>Transaction routes\<close>

text \<open>
  \<^verbatim>\<open>new Date(v)\<close> as a time value in milliseconds, \<^verbatim>\<open>NaN\<close> for an invalid date. What
  \<^verbatim>\<open>Date.parse\<close> makes of a string is the engine's and is a parameter here; an array or
  an object is parsed as its string, anything else is taken as the number it converts to
  (a time value beyond 8.64e15 milliseconds is invalid).
\<close>

definition new_Date :: "(string \<Rightarrow> jsnum) \<Rightarrow> jsval \<Rightarrow> jsnum" where
  "new_Date date_parse v =
     (case v of
        JUndefined \<Rightarrow> NaN
      | JNull \<Rightarrow> Num 0
      | JBool b \<Rightarrow> Num (if b then 1 else 0)
      | JNum n \<Rightarrow> if \<bar>n\<bar> \<le> 8640000000000000 then Num n else NaN
      | JStr s \<Rightarrow> date_parse s
      | JArr xs \<Rightarrow> date_parse (to_string v)
      | JObj ob \<Rightarrow> date_parse (to_string v))"

text \<open>The comparator \<^verbatim>\<open>(a, b) => new Date(b.date) - new Date(a.date)\<close>.\<close>

definition compare_dates :: "(string \<Rightarrow> jsnum) \<Rightarrow> obj \<Rightarrow> obj \<Rightarrow> jsnum" where
  "compare_dates date_parse a b =
     js_sub (new_Date date_parse (field b ''date'')) (new_Date date_parse (field a ''date''))"

text \<open>
  \<^verbatim>\<open>Array.prototype.sort\<close> with a comparator. The sort is the engine's: it is stable, and
  a comparator result of \<^verbatim>\<open>NaN\<close> counts as 0. It is modelled as a stable insertion sort:
  an element moves behind those of the sorted rest that the comparator puts before it
  (a result greater than 0), and stays in front of the first one that it does not.
\<close>

fun sort_insert :: "('a \<Rightarrow> 'a \<Rightarrow> jsnum) \<Rightarrow> 'a \<Rightarrow> 'a list \<Rightarrow> 'a list" where
  "sort_insert compareFn x [] = [x]"
| "sort_insert compareFn x (y # ys) =
     (if js_lt (Num 0) (compareFn x y) then y # sort_insert compareFn x ys else x # y # ys)"

definition array_sort :: "('a \<Rightarrow> 'a \<Rightarrow> jsnum) \<Rightarrow> 'a list \<Rightarrow> 'a list" where
  "array_sort compareFn xs = foldr (sort_insert compareFn) xs []"

text \<open>\<^verbatim>\<open>GET /transactions\<close>\<close>

definition get_transactions :: "(string \<Rightarrow> jsnum) \<Rightarrow> faults \<Rightarrow> fs \<Rightarrow> response \<times> fs" where
  "get_transactions date_parse io s =
     (if io ReadTransactions \<noteq> None then (error_response 500 ''Error reading transactions'', s)
      else (Response 200
              (JArr (map JObj (array_sort (compare_dates date_parse) (transactions_file s)))),
            s))"

text \<open>
  \<^verbatim>\<open>PUT /transactions/:index\<close>. The index is \<^verbatim>\<open>parseInt(req.params.index)\<close> of the route
  string. When that is \<^verbatim>\<open>NaN\<close> both comparisons of the bounds check are false: the
  handler goes on, \<^verbatim>\<open>transactions[NaN]\<close> is \<^verbatim>\<open>undefined\<close>, the assignment sets a property
  named \<^verbatim>\<open>NaN\<close> that \<^verbatim>\<open>JSON.stringify\<close> does not write, and the answer is the request body.
\<close>

definition put_transactions :: "faults \<Rightarrow> string \<Rightarrow> obj \<Rightarrow> fs \<Rightarrow> response \<times> fs" where
  "put_transactions io index_param req_body s =
     (if io ReadTransactions \<noteq> None
      then (error_response 500 ''Error updating transaction'', s)
      else
        let transactions = transactions_file s in
        (case parseInt index_param None of
           NaN \<Rightarrow>
             if io WriteTransactions \<noteq> None
             then (error_response 500 ''Error updating transaction'', s)
             else (Response 200 (JObj (spread [] req_body)), s)
         | Num index \<Rightarrow>
             if index < 0 \<or> index \<ge> int (length transactions)
             then (error_response 404 ''Transaction not found'', s)
             else
               (let transactions =
                      transactions[nat index := spread (transactions ! nat index) req_body]
                in
                if io WriteTransactions \<noteq> None
                then (error_response 500 ''Error updating transaction'', s)
                else (Response 200 (JObj (transactions ! nat index)),
                      s\<lparr>transactions_file := transactions\<rparr>))))"

text \<open>\<^verbatim>\<open>transactions.splice(start, 1)\<close> for a start within the array.\<close>

definition splice1 :: "nat \<Rightarrow> 'a list \<Rightarrow> 'a list" where
  "splice1 start xs = take start xs @ drop (Suc start) xs"

text \<open>
  \<^verbatim>\<open>DELETE /transactions/:index\<close>. A \<^verbatim>\<open>NaN\<close> index passes the bounds check here too, and
  \<^verbatim>\<open>splice(NaN, 1)\<close> starts at 0.
\<close>

definition delete_transactions :: "faults \<Rightarrow> string \<Rightarrow> fs \<Rightarrow> response \<times> fs" where
  "delete_transactions io index_param s =
     (if io ReadTransactions \<noteq> None
      then (error_response 500 ''Error deleting transaction'', s)
      else
        let transactions = transactions_file s in
        (case parseInt index_param None of
           NaN \<Rightarrow>
             if io WriteTransactions \<noteq> None
             then (error_response 500 ''Error deleting transaction'', s)
             else (Response 204 JUndefined, s\<lparr>transactions_file := splice1 0 transactions\<rparr>)
         | Num index \<Rightarrow>
             if index < 0 \<or> index \<ge> int (length transactions)
             then (error_response 404 ''Transaction not found'', s)
             else if io WriteTransactions \<noteq> None
             then (error_response 500 ''Error deleting transaction'', s)
             else (Response 204 JUndefined,
                   s\<lparr>transactions_file := splice1 (nat index) transactions\<rparr>)))"

section \<open>States and properties used in the statements\<close>

text \<open>The amount of an item is a non-negative integer.\<close>

definition amount_ok :: "obj \<Rightarrow> bool" where
  "amount_ok item = (case field item ''amount'' of JNum n \<Rightarrow> 0 \<le> n | _ \<Rightarrow> False)"

definition amounts_ok :: "fs \<Rightarrow> bool" where
  "amounts_ok s = list_all amount_ok (items_file s)"

text \<open>The ids of the items, in stored order.\<close>

definition ids :: "fs \<Rightarrow> jsval list" where
  "ids s = map (\<lambda>item. field item ''id'') (items_file s)"

text \<open>The item of the spec's scenario, and a store that holds it.\<close>

definition widget :: obj where
  "widget = [(''id'', JNum 1), (''name'', JStr ''Widget''), (''amount'', JNum 10)]"

definition widget_store :: fs where
  "widget_store = \<lparr>items_file = [widget], transactions_file = []\<rparr>"

text \<open>A request that takes \<open>n\<close> widgets.\<close>

definition take_widgets :: "int \<Rightarrow> obj" where
  "take_widgets n = [(''itemName'', JStr ''Widget''), (''amount'', JNum n)]"

text \<open>An environment in which writing the ledger fails.\<close>

definition ledger_write_fails :: faults where
  "ledger_write_fails op = (if op = WriteTransactions then Some ''ENOSPC'' else None)"

text \<open>What \<^verbatim>\<open>Date.parse\<close> gives on the date strings of the examples.\<close>

definition example_dates :: "string \<Rightarrow> jsnum" where
  "example_dates d =
     (if d = ''2020-01-01'' then Num 1577836800000
      else if d = ''2021-01-01'' then Num 1609459200000
      else NaN)"

definition transaction_on :: "string \<Rightarrow> obj" where
  "transaction_on d =
     [(''personName'', JStr ''System''), (''itemName'', JStr ''Widget''),
      (''amount'', JNum 1), (''date'', JStr d)]"

text \<open>The time value of the date of a ledger record, 0 when the date is invalid.\<close>

definition date_ms :: "(string \<Rightarrow> jsnum) \<Rightarrow> obj \<Rightarrow> int" where
  "date_ms date_parse t =
     (case new_Date date_parse (field t ''date'') of NaN \<Rightarrow> 0 | Num n \<Rightarrow> n)"

text \<open>A ledger of three records, the second taken without a date.\<close>

definition two_dated :: fs where
  "two_dated =
     \<lparr>items_file = [widget],
      transactions_file = [transaction_on ''2020-01-01'', transaction_on [],
                           transaction_on ''2021-01-01'']\<rparr>"

text \<open>The answer to taking seven widgets from the store of ten.\<close>

definition took_seven :: response where
  "took_seven =
     Response 200 (JObj [(''message'', JStr ''System took 7 Widget(s)''),
                         (''remaining'', JNum 3)])"

text \<open>The answer to taking three widgets from that store, and the store afterwards.\<close>

definition took_three :: response where
  "took_three =
     Response 200 (JObj [(''message'', JStr ''System took 3 Widget(s)''),
                         (''remaining'', JNum 7)])"

definition three_taken :: fs where
  "three_taken =
     \<lparr>items_file = [[(''id'', JNum 1), (''name'', JStr ''Widget''), (''amount'', JNum 7)]],
      transactions_file = [[(''personName'', JStr ''System''), (''itemName'', JStr ''Widget''),
                            (''amount'', JNum 3), (''date'', JStr [])]]\<rparr>"

section \<open>Facts about values\<close>

lemma strict_eq_JStr [simp]: "strict_eq v (JStr n) \<longleftrightarrow> v = JStr n"
  by (cases v) simp_all

lemma strict_eq_imp_eq: "strict_eq a b \<Longrightarrow> a = b"
  by (cases a; cases b) simp_all

lemma field_Cons [simp]: "field ((k, v) # ob) k' = (if k = k' then v else field ob k')"
  by (simp add: field_def)

lemma field_Nil [simp]: "field [] k = JUndefined"
  by (simp add: field_def)

lemma field_set_field [simp]:
  "field (set_field ob k v) k' = (if k' = k then v else field ob k')"
  by (simp add: field_def set_field_def update_conv')

lemma field_spread:
  "field (spread a b) k = (if k \<in> fst ` set b then field b k else field a k)"
proof (cases "map_of b k")
  case None
  then have "k \<notin> fst ` set b"
    by (simp add: map_of_eq_None_iff)
  with None show ?thesis
    by (simp add: field_def spread_def merge_conv' map_add_def)
next
  case (Some v)
  then have "k \<in> fst ` set b"
    by (metis map_of_eq_None_iff option.distinct(1))
  with Some show ?thesis
    by (simp add: field_def spread_def merge_conv' map_add_def)
qed


lemma findIndex_Some:
  "findIndex P xs = Some i \<Longrightarrow> i < length xs \<and> P (xs ! i) \<and> (\<forall>j < i. \<not> P (xs ! j))"
proof (induction xs arbitrary: i)
  case Nil
  then show ?case by simp
next
  case (Cons x xs)
  show ?case
  proof (cases "P x")
    case True
    with Cons.prems show ?thesis by simp
  next
    case False
    with Cons.prems obtain j where j: "findIndex P xs = Some j" "i = Suc j"
      by auto
    from Cons.IH [OF j(1)] False j(2) show ?thesis
      by (auto simp: less_Suc_eq_0_disj)
  qed
qed

text \<open>Rules that evaluate the conversions on concrete values.\<close>

lemmas js_eval = number_to_string_def digits_of.simps digit_chars_def exponent_form_def
  strip_zeros_def parseInt_def is_ws_def digit_val_def digits_value_def string_to_number_def
  Let_def

lemmas example_defs = widget_store_def widget_def take_widgets_def no_faults_def
  ledger_write_fails_def error_response_def transaction_error_def initializeFiles_def
  took_three_def three_taken_def took_seven_def two_dated_def transaction_on_def
  example_dates_def


lemma take_item_checks_Accepted:
  assumes "take_item_checks req_body items = Some (Accepted i r rem)"
  shows "findIndex (\<lambda>item. strict_eq (field item ''name'') (field req_body ''itemName'')) items
           = Some i"
    and "parseInt (to_string (field req_body ''amount'')) (Some 10) = Num r"
    and "0 < r"
    and "\<exists>stock. to_number (field (items ! i) ''amount'') = Some stock
           \<and> \<not> js_lt stock (Num r) \<and> rem = js_sub stock (Num r)"
  using assms
  by (auto simp: take_item_checks_def Let_def split: option.splits jsnum.splits if_splits)

lemma take_item_checks_Rejected:
  assumes "take_item_checks req_body items = Some (Rejected r)"
  shows "status r = 404 \<or> status r = 400"
  using assms
  by (auto simp: take_item_checks_def Let_def error_response_def
      split: option.splits jsnum.splits if_splits)

lemma status_take_item_success [simp]: "status (take_item_success b n name rem) = 200"
  by (simp add: take_item_success_def Let_def)

lemma status_transaction_error [simp]: "status (transaction_error e) = 500"
  by (simp add: transaction_error_def error_response_def)

section \<open>Creating an item\<close>


text \<open>
  The scenario of the spec, from the empty store: a widget is created with amount 10,
  Alice takes 3, a request for 100 is refused, a request for the remaining 7 empties the
  stock (the item stays, with amount 0), and deleting the widget leaves no item.
\<close>

lemma round_trip_scenario:
  "post_items no_faults 1 [(''name'', JStr ''Widget''), (''amount'', JNum 10)] initializeFiles
     = (Response 201 (JObj widget), widget_store)"
  "post_take_item no_faults
     [(''itemName'', JStr ''Widget''), (''amount'', JNum 3), (''personName'', JStr ''Alice'')]
     widget_store
     = Some (Response 200 (JObj [(''message'', JStr ''Alice took 3 Widget(s)''),
                                 (''remaining'', JNum 7)]),
             three_taken\<lparr>transactions_file :=
               [[(''personName'', JStr ''Alice''), (''itemName'', JStr ''Widget''),
                 (''amount'', JNum 3), (''date'', JStr [])]]\<rparr>)"
  "post_take_item no_faults (take_widgets 100) three_taken
     = Some (error_response 400 ''Insufficient amount'', three_taken)"
  "post_take_item no_faults (take_widgets 7) three_taken
     = Some (Response 200 (JObj
               [(''message'', JStr ''System took 7 Widget(s). Widget is now out of stock!''),
                (''remaining'', JNum 0)]),
             \<lparr>items_file = [[(''id'', JNum 1), (''name'', JStr ''Widget''),
                             (''amount'', JNum 0)]],
              transactions_file = transactions_file three_taken
                @ [transaction_record (take_widgets 7) 7]\<rparr>)"
  "delete_items no_faults ''Widget'' three_taken
     = (Response 204 JUndefined, three_taken\<lparr>items_file := []\<rparr>)"
  by (simp_all add: post_items_def post_take_item_def delete_items_def take_item_checks_def
      take_item_writes_def take_item_success_def transaction_record_def stringify_obj_def
      example_defs js_eval set_field_def num_to_json_def)

section \<open>Deleting items\<close>

text \<open>
  C8. \<^verbatim>\<open>DELETE /items/:name\<close>, when no file operation fails, removes every item whose
  name is the given string and answers 204 whether or not any item had it. When no item
  has the name the state stays as it is, and deleting the same name a second time gives
  the same answer and the same state as deleting it once.
\<close>

theorem delete_items_idempotent:
  "delete_items no_faults name s =
     (Response 204 JUndefined,
      s\<lparr>items_file := filter (\<lambda>item. field item ''name'' \<noteq> JStr name) (items_file s)\<rparr>)
   \<and> ((\<forall>item \<in> set (items_file s). field item ''name'' \<noteq> JStr name) \<longrightarrow>
        snd (delete_items no_faults name s) = s)
   \<and> delete_items no_faults name (snd (delete_items no_faults name s)) =
       delete_items no_faults name s"
proof -
  have "filter (\<lambda>item. field item ''name'' \<noteq> JStr name) (items_file s) = items_file s"
    if "\<forall>item \<in> set (items_file s). field item ''name'' \<noteq> JStr name"
    using that by (simp add: filter_id_conv)
  then show ?thesis
    by (simp add: delete_items_def no_faults_def)
qed

theorem delete_items_idempotent_witness:
  "field widget ''name'' \<noteq> JStr ''Gadget''
   \<and> snd (delete_items no_faults ''Gadget'' widget_store) = widget_store"
  using delete_items_idempotent [of "''Gadget''" widget_store]
  by (simp add: widget_store_def widget_def)

section \<open>Taking an item: the checks\<close>







section \<open>The amount of an item\<close>

lemma list_all_update:
  "list_all P xs \<Longrightarrow> P x \<Longrightarrow> list_all P (xs[i := x])"
  using set_update_subset_insert [of xs i x] by (auto simp: list_all_iff)

lemma amount_ok_set_field [simp]:
  "amount_ok (set_field item ''amount'' v) \<longleftrightarrow> (case v of JNum n \<Rightarrow> 0 \<le> n | _ \<Rightarrow> False)"
  by (simp add: amount_ok_def)

lemma items_file_take_item_writes:
  "items_file (snd (take_item_writes io req_body s i r rem)) = items_file s
   \<or> items_file (snd (take_item_writes io req_body s i r rem))
       = (items_file s)[i := set_field (items_file s ! i) ''amount'' (num_to_json rem)]"
  by (simp add: take_item_writes_def Let_def split: option.splits)

lemma amounts_ok_take_item_writes:
  assumes "amounts_ok s" and "0 \<le> n"
  shows "amounts_ok (snd (take_item_writes io req_body s i r (Num n)))"
proof -
  have "list_all amount_ok
      ((items_file s)[i := set_field (items_file s ! i) ''amount'' (num_to_json (Num n))])"
    using assms by (intro list_all_update) (simp_all add: amounts_ok_def num_to_json_def)
  with assms(1) items_file_take_item_writes [of io req_body s i r "Num n"] show ?thesis
    by (auto simp: amounts_ok_def)
qed

lemma amount_ok_nth:
  "amounts_ok s \<Longrightarrow> i < length (items_file s) \<Longrightarrow>
   \<exists>n. field (items_file s ! i) ''amount'' = JNum n \<and> 0 \<le> n"
proof -
  assume "amounts_ok s" and "i < length (items_file s)"
  then have "amount_ok (items_file s ! i)"
    by (simp add: amounts_ok_def list_all_length)
  then show ?thesis
    by (cases "field (items_file s ! i) ''amount''") (simp_all add: amount_ok_def)
qed

lemma amounts_ok_post_take_item:
  assumes "amounts_ok s"
  shows "\<exists>r s'. post_take_item io req_body s = Some (r, s') \<and> amounts_ok s'"
proof (cases "take_item_checks req_body (items_file s)")
  case None
  then obtain i where i: "findIndex (\<lambda>item. strict_eq (field item ''name'')
      (field req_body ''itemName'')) (items_file s) = Some i"
    and "to_number (field (items_file s ! i) ''amount'') = None"
    by (auto simp: take_item_checks_def Let_def split: option.splits jsnum.splits if_splits)
  moreover from findIndex_Some [OF i] have "i < length (items_file s)"
    by simp
  ultimately show ?thesis
    using amount_ok_nth [OF assms, of i] by auto
next
  case (Some c)
  show ?thesis
  proof (cases c)
    case (Rejected r)
    with Some assms show ?thesis
      by (auto simp: post_take_item_def split: option.splits)
  next
    case (Accepted i r rem)
    from take_item_checks_Accepted [OF Some [unfolded Accepted]]
    obtain stock where
      i: "findIndex (\<lambda>item. strict_eq (field item ''name'') (field req_body ''itemName''))
            (items_file s) = Some i"
      and stock: "to_number (field (items_file s ! i) ''amount'') = Some stock"
        "\<not> js_lt stock (Num r)" "rem = js_sub stock (Num r)"
      and r: "0 < r"
      by blast
    from findIndex_Some [OF i] have "i < length (items_file s)"
      by simp
    from amount_ok_nth [OF assms this] stock r obtain n where "rem = Num n" "0 \<le> n"
      by auto
    then have "amounts_ok (snd (take_item_writes io req_body s i r rem))"
      using amounts_ok_take_item_writes [OF assms, of n io req_body i r] by simp
    moreover obtain ra s' where "take_item_writes io req_body s i r rem = (ra, s')"
      by (cases "take_item_writes io req_body s i r rem")
    ultimately show ?thesis
      using Some Accepted assms
      by (auto simp: post_take_item_def split: option.splits)
  qed
qed

lemma amounts_ok_delete_items: "amounts_ok s \<Longrightarrow> amounts_ok (snd (delete_items io name s))"
  by (auto simp: delete_items_def amounts_ok_def list_all_iff)

lemma amounts_ok_post_items:
  assumes "amounts_ok s" and "field req_body ''amount'' = JNum n" and "0 \<le> n"
  shows "amounts_ok (snd (post_items io now req_body s))"
  using assms
  by (auto simp: post_items_def amounts_ok_def amount_ok_def stringify_obj_def Let_def)

lemma amounts_ok_put_items:
  assumes "amounts_ok s"
    and "''amount'' \<notin> fst ` set req_body \<or> (\<exists>n. field req_body ''amount'' = JNum n \<and> 0 \<le> n)"
  shows "amounts_ok (snd (put_items io name req_body s))"
proof (cases "findIndex (\<lambda>item. strict_eq (field item ''name'') (JStr name)) (items_file s)")
  case None
  with assms show ?thesis
    by (simp add: put_items_def)
next
  case (Some i)
  from findIndex_Some [OF Some] have "i < length (items_file s)"
    by simp
  from amount_ok_nth [OF assms(1) this] assms(2)
  have "amount_ok (spread (items_file s ! i) req_body)"
    by (auto simp: amount_ok_def field_spread)
  with assms(1) Some show ?thesis
    by (auto simp: put_items_def amounts_ok_def Let_def intro: list_all_update)
qed

text \<open>
  C2, as the handlers have it. Creating and updating an item store the amount the request
  gives, whatever it is, so an amount can be negative (or no number at all). What holds
  is this: from a state in which every amount is a non-negative integer, taking an item
  and deleting items lead to such a state again, with any file fault, and so do creating
  an item whose amount is a non-negative integer and updating an item with a body that
  has no amount or a non-negative integer as the amount.
\<close>

theorem amounts_stay_nonnegative:
  assumes "amounts_ok s"
  shows "(\<exists>r s'. post_take_item io req_body s = Some (r, s') \<and> amounts_ok s')
    \<and> amounts_ok (snd (delete_items io name s))
    \<and> ((\<exists>n. field req_body ''amount'' = JNum n \<and> 0 \<le> n) \<longrightarrow>
          amounts_ok (snd (post_items io now req_body s)))
    \<and> ((''amount'' \<notin> fst ` set req_body \<or> (\<exists>n. field req_body ''amount'' = JNum n \<and> 0 \<le> n)) \<longrightarrow>
          amounts_ok (snd (put_items io name req_body s)))"
  using amounts_ok_post_take_item [OF assms] amounts_ok_delete_items [OF assms]
    amounts_ok_post_items [OF assms] amounts_ok_put_items [OF assms]
  by blast

theorem amounts_stay_nonnegative_witness:
  "amounts_ok widget_store
   \<and> (\<exists>r s'. post_take_item no_faults (take_widgets 3) widget_store = Some (r, s')
          \<and> amounts_ok s')
   \<and> amounts_ok (snd (delete_items no_faults ''Widget'' widget_store))
   \<and> amounts_ok (snd (post_items no_faults 1700000000000 (take_widgets 3) widget_store))
   \<and> amounts_ok (snd (put_items no_faults ''Widget'' (take_widgets 3) widget_store))"
proof -
  have h: "amounts_ok widget_store"
    by (simp add: amounts_ok_def amount_ok_def widget_store_def widget_def)
  show ?thesis
    using h amounts_stay_nonnegative
      [OF h, of no_faults "take_widgets 3" "''Widget''" 1700000000000]
    by (simp add: take_widgets_def)
qed

theorem amounts_stay_nonnegative_counterexample:
  "\<not> amounts_ok (snd (post_items no_faults 1700000000000
        [(''name'', JStr ''Widget''), (''amount'', JNum (- 5))] initializeFiles))"
  by (simp add: post_items_def no_faults_def initializeFiles_def stringify_obj_def
      amounts_ok_def amount_ok_def Let_def)


section \<open>Taking an item: the two writes\<close>

lemma take_item_writes_no_faults:
  "take_item_writes no_faults req_body s i r rem =
     (take_item_success req_body r
        (field (set_field (items_file s ! i) ''amount'' (num_to_json rem)) ''name'') rem,
      s\<lparr>items_file := (items_file s)[i := set_field (items_file s ! i) ''amount'' (num_to_json rem)],
        transactions_file := transactions_file s @ [transaction_record req_body r]\<rparr>)"
  by (simp add: take_item_writes_def no_faults_def Let_def)

lemma take_item_writes_200:
  assumes "take_item_writes io req_body s i r rem = (res, s')" and "status res = 200"
  shows "io WriteItems = None \<and> io ReadTransactions = None \<and> io WriteTransactions = None
    \<and> s' = snd (take_item_writes no_faults req_body s i r rem)"
  using assms
  by (auto simp: take_item_writes_def no_faults_def Let_def split: option.splits)

lemma take_item_writes_ledger_fault:
  assumes "io WriteItems = None"
    and "io ReadTransactions \<noteq> None \<or> io WriteTransactions \<noteq> None"
  shows "\<exists>e. take_item_writes io req_body s i r rem =
           (transaction_error e,
            s\<lparr>items_file := items_file (snd (take_item_writes no_faults req_body s i r rem))\<rparr>)"
  using assms
  by (auto simp: take_item_writes_def no_faults_def Let_def split: option.splits)

lemma post_take_item_200:
  assumes "post_take_item io req_body s = Some (res, s')" and "status res = 200"
  shows "\<exists>i r rem. take_item_checks req_body (items_file s) = Some (Accepted i r rem)
     \<and> truthy (field req_body ''itemName'') \<and> truthy (field req_body ''amount'')
     \<and> io ReadItems = None
     \<and> take_item_writes io req_body s i r rem = (res, s')"
proof -
  from assms have t: "truthy (field req_body ''itemName'')" "truthy (field req_body ''amount'')"
    by (auto simp: post_take_item_def error_response_def split: if_splits)
  with assms have io: "io ReadItems = None"
    by (auto simp: post_take_item_def split: option.splits)
  show ?thesis
  proof (cases "take_item_checks req_body (items_file s)")
    case None
    with assms t io show ?thesis
      by (simp add: post_take_item_def)
  next
    case (Some c)
    show ?thesis
    proof (cases c)
      case (Rejected r)
      with Some assms t io have "res = r"
        by (simp add: post_take_item_def)
      with take_item_checks_Rejected [OF Some [unfolded Rejected]] assms(2) show ?thesis
        by simp
    next
      case (Accepted i r rem)
      with Some assms t io show ?thesis
        by (simp add: post_take_item_def)
    qed
  qed
qed

lemma take_three_widgets:
  "post_take_item no_faults (take_widgets 3) widget_store = Some (took_three, three_taken)"
  by (simp add: post_take_item_def take_item_checks_def take_item_writes_def
      take_item_success_def transaction_record_def example_defs js_eval set_field_def
      num_to_json_def)

text \<open>
  C1, as the handler has it. The handler answers 200 only after both writes: an answer of
  200 means that neither write failed and that the ledger has one more record. There is
  no rollback. When a request passes the four checks and the items file is written, and
  then reading or writing the ledger fails, the answer is 500 with the message of the
  failure, the ledger is as it was, and the items file keeps the deducted amount, the
  same content as after a run without faults.
\<close>

theorem take_item_two_writes:
  "(post_take_item io req_body s = Some (res, s') \<and> status res = 200 \<longrightarrow>
      io WriteItems = None \<and> io WriteTransactions = None
      \<and> post_take_item no_faults req_body s = Some (res, s')
      \<and> (\<exists>r. transactions_file s' = transactions_file s @ [transaction_record req_body r]))
   \<and> (post_take_item no_faults req_body s = Some (ok, s_ok) \<and> status ok = 200
        \<and> io ReadItems = None \<and> io WriteItems = None
        \<and> (io ReadTransactions \<noteq> None \<or> io WriteTransactions \<noteq> None) \<longrightarrow>
      (\<exists>e. post_take_item io req_body s =
              Some (error_response 500 (''Error processing transaction '' @ e),
                    s\<lparr>items_file := items_file s_ok\<rparr>)))"
proof (rule conjI; rule impI)
  assume a: "post_take_item io req_body s = Some (res, s') \<and> status res = 200"
  from post_take_item_200 [of io req_body s res s'] a obtain i r rem where
    c: "take_item_checks req_body (items_file s) = Some (Accepted i r rem)"
    and t: "truthy (field req_body ''itemName'')" "truthy (field req_body ''amount'')"
    and w: "take_item_writes io req_body s i r rem = (res, s')"
    by blast
  from take_item_writes_200 [OF w] a
  have io: "io WriteItems = None" "io ReadTransactions = None" "io WriteTransactions = None"
    and s': "s' = snd (take_item_writes no_faults req_body s i r rem)"
    by simp_all
  from w io have "res = fst (take_item_writes no_faults req_body s i r rem)"
    by (simp add: take_item_writes_def no_faults_def Let_def)
  with s' c t have "post_take_item no_faults req_body s = Some (res, s')"
    by (simp add: post_take_item_def no_faults_def)
  moreover from s' have "transactions_file s' = transactions_file s @ [transaction_record req_body r]"
    by (simp add: take_item_writes_no_faults)
  ultimately show "io WriteItems = None \<and> io WriteTransactions = None
      \<and> post_take_item no_faults req_body s = Some (res, s')
      \<and> (\<exists>r. transactions_file s' = transactions_file s @ [transaction_record req_body r])"
    using io by blast
next
  assume a: "post_take_item no_faults req_body s = Some (ok, s_ok) \<and> status ok = 200
        \<and> io ReadItems = None \<and> io WriteItems = None
        \<and> (io ReadTransactions \<noteq> None \<or> io WriteTransactions \<noteq> None)"
  from post_take_item_200 [of no_faults req_body s ok s_ok] a obtain i r rem where
    c: "take_item_checks req_body (items_file s) = Some (Accepted i r rem)"
    and t: "truthy (field req_body ''itemName'')" "truthy (field req_body ''amount'')"
    and w: "take_item_writes no_faults req_body s i r rem = (ok, s_ok)"
    by blast
  from take_item_writes_ledger_fault [of io req_body s i r rem] a w obtain e where
    "take_item_writes io req_body s i r rem =
       (transaction_error e, s\<lparr>items_file := items_file s_ok\<rparr>)"
    by auto
  with c t a have "post_take_item io req_body s =
      Some (error_response 500 (''Error processing transaction '' @ e),
            s\<lparr>items_file := items_file s_ok\<rparr>)"
    by (simp add: post_take_item_def transaction_error_def)
  then show "\<exists>e. post_take_item io req_body s =
              Some (error_response 500 (''Error processing transaction '' @ e),
                    s\<lparr>items_file := items_file s_ok\<rparr>)"
    by blast
qed

theorem take_item_two_writes_witness:
  "post_take_item no_faults (take_widgets 3) widget_store = Some (took_three, three_taken)
   \<and> status took_three = 200
   \<and> (\<exists>r. transactions_file three_taken =
             transactions_file widget_store @ [transaction_record (take_widgets 3) r])
   \<and> (\<exists>e. post_take_item ledger_write_fails (take_widgets 3) widget_store =
             Some (error_response 500 (''Error processing transaction '' @ e),
                   widget_store\<lparr>items_file := items_file three_taken\<rparr>))"
proof -
  have st: "status took_three = 200"
    by (simp add: took_three_def)
  have io: "ledger_write_fails ReadItems = None" "ledger_write_fails WriteItems = None"
    "ledger_write_fails WriteTransactions \<noteq> None"
    by (simp_all add: ledger_write_fails_def)
  show ?thesis
    using take_three_widgets st io
      take_item_two_writes [of no_faults "take_widgets 3" widget_store took_three three_taken]
      take_item_two_writes [of ledger_write_fails "take_widgets 3" widget_store _ _
        took_three three_taken]
    by simp
qed

theorem take_item_two_writes_counterexample:
  "post_take_item ledger_write_fails (take_widgets 3) widget_store =
     Some (error_response 500 ''Error processing transaction ENOSPC'',
           \<lparr>items_file = [[(''id'', JNum 1), (''name'', JStr ''Widget''), (''amount'', JNum 7)]],
            transactions_file = []\<rparr>)"
  by (simp add: post_take_item_def take_item_checks_def take_item_writes_def example_defs
      js_eval set_field_def num_to_json_def)

section \<open>The id of an item\<close>

lemma map_field_update:
  "i < length xs \<Longrightarrow> field x k = field (xs ! i) k \<Longrightarrow>
   map (\<lambda>item. field item k) (xs[i := x]) = map (\<lambda>item. field item k) xs"
  by (simp add: map_update list_update_same_conv)

lemma ids_take_item_writes:
  "i < length (items_file s) \<Longrightarrow> ids (snd (take_item_writes io req_body s i r rem)) = ids s"
  by (auto simp: take_item_writes_def ids_def Let_def map_field_update split: option.splits)

lemma ids_post_take_item:
  assumes "post_take_item io req_body s = Some (res, s')"
  shows "ids s' = ids s"
proof (cases "take_item_checks req_body (items_file s)")
  case None
  with assms show ?thesis
    by (auto simp: post_take_item_def split: if_splits option.splits)
next
  case (Some c)
  show ?thesis
  proof (cases c)
    case (Rejected r)
    with Some assms show ?thesis
      by (auto simp: post_take_item_def split: if_splits option.splits)
  next
    case (Accepted i r rem)
    from take_item_checks_Accepted(1) [OF Some [unfolded Accepted]]
    have "i < length (items_file s)"
      using findIndex_Some by fastforce
    from ids_take_item_writes [OF this, of io req_body r rem] Some Accepted assms
    show ?thesis
      by (auto simp: post_take_item_def split: if_splits option.splits)
  qed
qed

lemma ids_put_items:
  assumes "''id'' \<notin> fst ` set req_body"
  shows "ids (snd (put_items io name req_body s)) = ids s"
proof (cases "findIndex (\<lambda>item. strict_eq (field item ''name'') (JStr name)) (items_file s)")
  case None
  then show ?thesis
    by (simp add: put_items_def)
next
  case (Some i)
  from findIndex_Some [OF Some] have "i < length (items_file s)"
    by simp
  with Some assms show ?thesis
    by (simp add: put_items_def ids_def Let_def map_field_update field_spread)
qed

lemma ids_post_items:
  "ids (snd (post_items io now req_body s)) = ids s
   \<or> ids (snd (post_items io now req_body s)) = ids s @ [JNum now]"
  by (simp add: post_items_def ids_def stringify_obj_def Let_def)

lemma ids_delete_items:
  "distinct (ids s) \<Longrightarrow> distinct (ids (snd (delete_items io name s)))"
  by (simp add: delete_items_def ids_def distinct_map_filter)

text \<open>
  C9, as the handlers have it. The id of a new item is the clock reading \<^verbatim>\<open>Date.now()\<close>.
  It differs from the ids there are when the clock reading does, and not otherwise: two
  items created in the same millisecond have the same id. Taking an item and deleting
  items change no id of an item that stays, and updating an item changes no id when the
  body has no \<^verbatim>\<open>id\<close>; a body with an \<^verbatim>\<open>id\<close> overwrites the id of the item.
\<close>

theorem item_ids:
  "ids (snd (post_items no_faults now req_body s)) = ids s @ [JNum now]
   \<and> (distinct (ids s) \<and> JNum now \<notin> set (ids s) \<longrightarrow>
        distinct (ids (snd (post_items io now req_body s))))
   \<and> (post_take_item io req_body s = Some (res, s') \<longrightarrow> ids s' = ids s)
   \<and> (''id'' \<notin> fst ` set req_body \<longrightarrow> ids (snd (put_items io name req_body s)) = ids s)
   \<and> set (items_file (snd (delete_items io name s))) \<subseteq> set (items_file s)
   \<and> (distinct (ids s) \<longrightarrow> distinct (ids (snd (delete_items io name s))))"
proof -
  have "ids (snd (post_items no_faults now req_body s)) = ids s @ [JNum now]"
    by (simp add: post_items_def ids_def stringify_obj_def Let_def no_faults_def)
  moreover have "distinct (ids (snd (post_items io now req_body s)))"
    if "distinct (ids s) \<and> JNum now \<notin> set (ids s)"
    using that ids_post_items [of io now req_body s] by auto
  moreover have "set (items_file (snd (delete_items io name s))) \<subseteq> set (items_file s)"
    by (auto simp: delete_items_def)
  ultimately show ?thesis
    using ids_post_take_item ids_put_items ids_delete_items by blast
qed

theorem item_ids_witness:
  "ids (snd (post_items no_faults 1700000000000 (take_widgets 3) widget_store))
     = [JNum 1, JNum 1700000000000]
   \<and> distinct (ids (snd (post_items no_faults 1700000000000 (take_widgets 3) widget_store)))
   \<and> ids three_taken = ids widget_store
   \<and> ids (snd (put_items no_faults ''Widget'' (take_widgets 3) widget_store)) = ids widget_store
   \<and> distinct (ids (snd (delete_items no_faults ''Widget'' widget_store)))"
proof -
  have i: "ids widget_store = [JNum 1]"
    by (simp add: ids_def widget_store_def widget_def)
  show ?thesis
    using i take_three_widgets
      item_ids [of 1700000000000 "take_widgets 3" widget_store no_faults took_three
        three_taken "''Widget''"]
    by (simp add: take_widgets_def)
qed

theorem item_ids_counterexample:
  "\<not> distinct (ids (snd (post_items no_faults 1700000000000
         [(''name'', JStr ''Gadget''), (''amount'', JNum 2)]
         (snd (post_items no_faults 1700000000000
            [(''name'', JStr ''Widget''), (''amount'', JNum 10)] initializeFiles)))))
   \<and> ids widget_store = [JNum 1]
   \<and> ids (snd (put_items no_faults ''Widget'' [(''id'', JNum 2)] widget_store)) = [JNum 2]"
  by (simp add: post_items_def put_items_def ids_def stringify_obj_def Let_def field_spread
      example_defs)


section \<open>Concurrent requests\<close>











section \<open>The ledger in date order\<close>

text \<open>
  When every date of the ledger is a valid date, \<^verbatim>\<open>GET /transactions\<close> answers with the
  records in non-increasing order of their dates, and records of equal date keep the
  order in which they are stored: the comparator is then an order, and the sort is the
  stable sort by descending time value.
\<close>

lemma sort_insert_valid:
  assumes "\<forall>t \<in> set (x # ys). new_Date dp (field t ''date'') \<noteq> NaN"
  shows "sort_insert (compare_dates dp) x ys = insort_key (\<lambda>t. - date_ms dp t) x ys"
  using assms
proof (induction ys)
  case Nil
  then show ?case by simp
next
  case (Cons y ys)
  then obtain a b where "new_Date dp (field x ''date'') = Num a"
    "new_Date dp (field y ''date'') = Num b"
    by (metis jsnum.exhaust list.set_intros(1) list.set_intros(2))
  with Cons show ?case
    by (auto simp: compare_dates_def date_ms_def)
qed

lemma array_sort_valid:
  assumes "\<forall>t \<in> set xs. new_Date dp (field t ''date'') \<noteq> NaN"
  shows "array_sort (compare_dates dp) xs = sort_key (\<lambda>t. - date_ms dp t) xs"
  using assms
proof (induction xs)
  case Nil
  then show ?case by (simp add: array_sort_def)
next
  case (Cons x xs)
  then have ih: "array_sort (compare_dates dp) xs = sort_key (\<lambda>t. - date_ms dp t) xs"
    by simp
  have "\<forall>t \<in> set (x # sort_key (\<lambda>t. - date_ms dp t) xs). new_Date dp (field t ''date'') \<noteq> NaN"
    using Cons.prems by simp
  from sort_insert_valid [OF this] ih show ?case
    by (simp add: array_sort_def sort_key_def)
qed

lemma sorted_rev_negated:
  fixes f :: "'a \<Rightarrow> int"
  shows "sorted (map (\<lambda>t. - f t) ys) \<Longrightarrow> sorted (rev (map f ys))"
  by (induction ys) (auto simp: sorted_append)

lemma get_transactions_valid_dates:
  assumes "\<forall>t \<in> set (transactions_file s). new_Date dp (field t ''date'') \<noteq> NaN"
  shows "\<exists>sorted_list.
      get_transactions dp no_faults s = (Response 200 (JArr (map JObj sorted_list)), s)
    \<and> sorted (rev (map (date_ms dp) sorted_list))
    \<and> (\<forall>k. filter (\<lambda>t. date_ms dp t = k) sorted_list
            = filter (\<lambda>t. date_ms dp t = k) (transactions_file s))
    \<and> length sorted_list = length (transactions_file s)
    \<and> set sorted_list = set (transactions_file s)"
proof -
  let ?f = "\<lambda>t. - date_ms dp t"
  let ?ys = "sort_key ?f (transactions_file s)"
  have "sorted (map ?f ?ys)"
    by (rule sorted_sort_key)
  then have "sorted (rev (map (date_ms dp) ?ys))"
    by (rule sorted_rev_negated)
  moreover have "filter (\<lambda>t. date_ms dp t = k) ?ys
      = filter (\<lambda>t. date_ms dp t = k) (transactions_file s)" for k
    using sort_key_stable [of ?f "- k" "transactions_file s"] by simp
  moreover have "get_transactions dp no_faults s = (Response 200 (JArr (map JObj ?ys)), s)"
    using array_sort_valid [OF assms]
    by (simp add: get_transactions_def no_faults_def)
  moreover have "length ?ys = length (transactions_file s)" "set ?ys = set (transactions_file s)"
    by simp_all
  ultimately show ?thesis
    by blast
qed

text \<open>
  C6. A record whose date is empty (or otherwise invalid) breaks the order. The
  comparator subtracts \<^verbatim>\<open>NaN\<close> and gives \<^verbatim>\<open>NaN\<close>, which the sort reads as "equal", for that
  record against every other. Here the ledger holds a record of 2020, one without a date
  and one of 2021: each neighbouring pair compares as equal, the array is returned as it
  is stored, and the record of 2020 comes before the record of 2021, against the
  handler's own comment (latest first).
\<close>

theorem get_transactions_empty_date:
  "get_transactions example_dates no_faults two_dated =
     (Response 200 (JArr [JObj (transaction_on ''2020-01-01''), JObj (transaction_on []),
                          JObj (transaction_on ''2021-01-01'')]), two_dated)"
  by (simp add: get_transactions_def array_sort_def compare_dates_def new_Date_def
      example_dates_def two_dated_def transaction_on_def no_faults_def)

section \<open>Ledger records by index\<close>

text \<open>
  For an index that parses to an integer, the two routes answer 404 exactly when the
  index is below 0 or not below the length of the ledger, and otherwise replace (by
  merging the body in) or remove the record at that position and no other.
\<close>

lemma transactions_by_index:
  assumes "parseInt index_param None = Num index"
  shows "(index < 0 \<or> int (length (transactions_file s)) \<le> index \<longrightarrow>
            put_transactions no_faults index_param req_body s
              = (error_response 404 ''Transaction not found'', s)
          \<and> delete_transactions no_faults index_param s
              = (error_response 404 ''Transaction not found'', s))
       \<and> (0 \<le> index \<and> index < int (length (transactions_file s)) \<longrightarrow>
            put_transactions no_faults index_param req_body s
              = (Response 200 (JObj (spread (transactions_file s ! nat index) req_body)),
                 s\<lparr>transactions_file := (transactions_file s)
                     [nat index := spread (transactions_file s ! nat index) req_body]\<rparr>)
          \<and> delete_transactions no_faults index_param s
              = (Response 204 JUndefined,
                 s\<lparr>transactions_file := take (nat index) (transactions_file s)
                     @ drop (Suc (nat index)) (transactions_file s)\<rparr>))"
  using assms
  by (auto simp: put_transactions_def delete_transactions_def no_faults_def splice1_def Let_def)

text \<open>
  C7. For an index that does not parse (\<^verbatim>\<open>parseInt\<close> gives \<^verbatim>\<open>NaN\<close>) the bounds check lets
  the request through, since both of its comparisons are false. \<^verbatim>\<open>DELETE\<close> then removes
  the first record of the ledger and answers 204; \<^verbatim>\<open>PUT\<close> answers 200 with the body and
  changes nothing.
\<close>

theorem delete_transactions_not_a_number:
  "parseInt ''abc'' None = NaN
   \<and> delete_transactions no_faults ''abc'' two_dated =
       (Response 204 JUndefined,
        two_dated\<lparr>transactions_file := [transaction_on [], transaction_on ''2021-01-01'']\<rparr>)
   \<and> put_transactions no_faults ''abc'' [(''amount'', JNum 5)] two_dated =
       (Response 200 (JObj [(''amount'', JNum 5)]), two_dated)"
  by (simp add: delete_transactions_def put_transactions_def splice1_def spread_def
      two_dated_def no_faults_def js_eval)


end
